theory Spec2Isabelle
  imports Main "HOL-Library.AList"
begin

section \<open>The file viewer data source (data-source.ts)\<close>

text \<open>
  The module \<^verbatim>\<open>web/packages/gallery/components/viewer/data-source.ts\<close> keeps four
  JavaScript \<^verbatim>\<open>Map\<close>s in a module variable \<^verbatim>\<open>_state\<close> and runs one asynchronous
  function (\<^verbatim>\<open>enqueueUpdates\<close>) per requested file. JavaScript is single threaded: an
  \<^verbatim>\<open>async\<close> function runs without interruption from one \<^verbatim>\<open>await\<close> to the next. The
  embedding therefore has

  \<^item> the data of the module as records (optional fields as \<open>option\<close>, \<open>None\<close> standing
    for a field that is absent or \<^verbatim>\<open>undefined\<close>);
  \<^item> a \<^verbatim>\<open>Map\<close> as an association list in insertion order, read with \<open>map_of\<close>,
    written with \<open>AList.update\<close> (an existing key keeps its place, a new one goes last,
    as \<^verbatim>\<open>Map.prototype.set\<close> does) and \<open>AList.delete\<close>;
  \<^item> every invocation of an asynchronous function as an entry of a list, holding the
    \<^verbatim>\<open>await\<close> at which it is suspended and the local variables that are live there;
  \<^item> the settling of an awaited promise as an operation of its own, whose argument (the
    value the promise resolves with, or its rejection) is chosen by the environment;
  \<^item> callbacks as identities; calling one appends an event to a trace, as does every
    call of an external collaborator and every write of the item-data map.
\<close>

subsection \<open>Data\<close>

datatype FileType = FileType_image | FileType_video | FileType_livePhoto

text \<open>Of an \<^verbatim>\<open>EnteFile\<close> the module reads \<^verbatim>\<open>file.id\<close> and \<^verbatim>\<open>file.metadata.fileType\<close>.\<close>

datatype EnteFile = EnteFile (file_id: int) (metadata_fileType: FileType)

datatype Blob = Blob string

record PhotoSwipeSlideData =
  src :: "string option"
  width :: "nat option"
  height :: "nat option"

record ItemData = PhotoSwipeSlideData +
  fileID :: int
  fileType :: FileType
  imageURL :: "string option"
  originalImageBlob :: "Blob option"
  videoURL :: "string option"
  isContentLoading :: "bool option"
  isContentZoomable :: "bool option"
  fetchFailed :: "bool option"

datatype RawExifTags = RawExifTags string

datatype ParsedMetadata = ParsedMetadata string

record FileInfoExif =
  tags :: "RawExifTags option"
  parsed :: "ParsedMetadata option"

text \<open>\<^verbatim>\<open>needsRefresh: () => void\<close> and \<^verbatim>\<open>observer: (exifData) => void\<close>, by identity.\<close>

datatype callback = Callback nat

datatype observer = Observer nat

record FileViewerDataSourceState =
  itemDataByFileID :: "(int \<times> ItemData) list"
  needsRefreshByFileID :: "(int \<times> callback) list"
  fileInfoExifByFileID :: "(int \<times> FileInfoExif) list"
  exifObserverByFileID :: "(int \<times> observer) list"

text \<open>The calls the module makes to its collaborators, and what an observer can see.\<close>

datatype call =
    RenderableThumbnailURL EnteFile
  | RenderableSourceURLs EnteFile
  | WithDimensions string
  | LivePhotoImage EnteFile
  | LivePhotoOriginalImageBlob EnteFile
  | LivePhotoVideo EnteFile
  | ExtractRawExif Blob
  | ParseExif RawExifTags

datatype event =
    CacheSet int ItemData
  | CacheDelete int
  | NeedsRefresh callback
  | ExifObserved observer FileInfoExif
  | Called call
  | LogError string

text \<open>
  The \<^verbatim>\<open>await\<close>s of \<^verbatim>\<open>enqueueUpdates\<close> (lines 261, 265, 289/299/307, 292, 311, 316 and
  321), each with the local variables that are used after it; \<open>Returned\<close> is the
  function having returned.
\<close>

datatype suspension =
    AwaitThumbnailURL
  | AwaitThumbnailDimensions string
  | AwaitSourceURLs
  | AwaitImageDimensions string "Blob option"
  | AwaitLivePhotoImage
  | AwaitLivePhotoDimensions string "Blob option"
  | AwaitLivePhotoVideo ItemData
  | Returned

text \<open>
  \<^verbatim>\<open>sourceURLs.url\<close> is a string, or for a live photo the bundle of accessors
  \<^verbatim>\<open>image()\<close>, \<^verbatim>\<open>video()\<close> and \<^verbatim>\<open>originalImageBlob()\<close>.
\<close>

datatype SourceURL = URLString string | URLLivePhoto

text \<open>
  How an awaited promise settles. \<open>ResolvedLivePhotoImage\<close> carries, with the value of
  \<^verbatim>\<open>await livePhotoSourceURLs.image()\<close>, what the synchronous accessor
  \<^verbatim>\<open>livePhotoSourceURLs.originalImageBlob()\<close> returns when it is called next (line 314).
\<close>

datatype settlement =
    Rejected
  | ResolvedThumbnailURL "string option"
  | ResolvedDimensions nat nat
  | ResolvedSourceURLs SourceURL "Blob option"
  | ResolvedLivePhotoImage "string option" "Blob option"
  | ResolvedLivePhotoVideo "string option"

text \<open>
  The one \<^verbatim>\<open>await\<close> of \<^verbatim>\<open>updateFileInfoExifIfNeeded\<close> (line 439). A resolution carries
  the tags and the result of the synchronous \<^verbatim>\<open>parseExif(tags)\<close> that follows it
  (\<open>None\<close>: it throws).
\<close>

datatype exifSuspension = AwaitExtractRawExif | ExifReturned

datatype exifSettlement =
    ExtractRejected
  | ExtractResolved RawExifTags "ParsedMetadata option"

text \<open>
  The module variable \<^verbatim>\<open>_state\<close>, the invocations of the two asynchronous functions
  (in the order they were started; an invocation is named by its position), and the
  trace of events so far.
\<close>

record world =
  state :: FileViewerDataSourceState
  runs :: "(EnteFile \<times> suspension) list"
  exifRuns :: "(int \<times> exifSuspension) list"
  trace :: "event list"

definition newFileViewerDataSourceState :: FileViewerDataSourceState where
  "newFileViewerDataSourceState =
     \<lparr>itemDataByFileID = [], needsRefreshByFileID = [],
      fileInfoExifByFileID = [], exifObserverByFileID = []\<rparr>"

definition initial :: world where
  "initial = \<lparr>state = newFileViewerDataSourceState, runs = [], exifRuns = [], trace = []\<rparr>"

subsection \<open>Reading and writing the maps\<close>

definition emit :: "event \<Rightarrow> world \<Rightarrow> world" where
  "emit e w = w\<lparr>trace := trace w @ [e]\<rparr>"

definition itemDataGet :: "world \<Rightarrow> int \<Rightarrow> ItemData option" where
  "itemDataGet w k = map_of (itemDataByFileID (state w)) k"

definition itemDataSet :: "int \<Rightarrow> ItemData \<Rightarrow> world \<Rightarrow> world" where
  "itemDataSet k v w =
     emit (CacheSet k v)
       (w\<lparr>state := (state w)\<lparr>itemDataByFileID :=
             AList.update k v (itemDataByFileID (state w))\<rparr>\<rparr>)"

definition itemDataDelete :: "int \<Rightarrow> world \<Rightarrow> world" where
  "itemDataDelete k w =
     emit (CacheDelete k)
       (w\<lparr>state := (state w)\<lparr>itemDataByFileID :=
             AList.delete k (itemDataByFileID (state w))\<rparr>\<rparr>)"

definition needsRefreshGet :: "world \<Rightarrow> int \<Rightarrow> callback option" where
  "needsRefreshGet w k = map_of (needsRefreshByFileID (state w)) k"

definition needsRefreshSet :: "int \<Rightarrow> callback \<Rightarrow> world \<Rightarrow> world" where
  "needsRefreshSet k v w =
     w\<lparr>state := (state w)\<lparr>needsRefreshByFileID :=
           AList.update k v (needsRefreshByFileID (state w))\<rparr>\<rparr>"

definition fileInfoExifGet :: "world \<Rightarrow> int \<Rightarrow> FileInfoExif option" where
  "fileInfoExifGet w k = map_of (fileInfoExifByFileID (state w)) k"

definition fileInfoExifSet :: "int \<Rightarrow> FileInfoExif \<Rightarrow> world \<Rightarrow> world" where
  "fileInfoExifSet k v w =
     w\<lparr>state := (state w)\<lparr>fileInfoExifByFileID :=
           AList.update k v (fileInfoExifByFileID (state w))\<rparr>\<rparr>"

definition exifObserverGet :: "world \<Rightarrow> int \<Rightarrow> observer option" where
  "exifObserverGet w k = map_of (exifObserverByFileID (state w)) k"

definition exifObserverSet :: "int \<Rightarrow> observer \<Rightarrow> world \<Rightarrow> world" where
  "exifObserverSet k v w =
     w\<lparr>state := (state w)\<lparr>exifObserverByFileID :=
           AList.update k v (exifObserverByFileID (state w))\<rparr>\<rparr>"

subsection \<open>logoutFileViewerDataSource (lines 151-153)\<close>

text \<open>
  The assignment replaces the state object. Invocations that are suspended are not
  touched: they read \<^verbatim>\<open>_state\<close> anew at every access, so they go on with the new one.
\<close>

definition logoutFileViewerDataSource :: "world \<Rightarrow> world" where
  "logoutFileViewerDataSource w = w\<lparr>state := newFileViewerDataSourceState\<rparr>"

subsection \<open>enqueueUpdates (lines 242-348)\<close>

text \<open>
  A \<^verbatim>\<open>Partial<ItemData>\<close> is written as an \<open>ItemData\<close> built on \<open>noFields\<close>; its
  \<open>fileID\<close> and \<open>fileType\<close> do not matter, since \<open>update\<close> overwrites both
  (\<^verbatim>\<open>{ ...itemData, fileType, fileID }\<close>).
\<close>

definition noFields :: "EnteFile \<Rightarrow> ItemData" where
  "noFields file =
     \<lparr>src = None, width = None, height = None,
      fileID = file_id file, fileType = metadata_fileType file,
      imageURL = None, originalImageBlob = None, videoURL = None,
      isContentLoading = None, isContentZoomable = None, fetchFailed = None\<rparr>"

text \<open>Lines 246-249: the entry is replaced, not merged; then the callback, if any.\<close>

definition update :: "EnteFile \<Rightarrow> ItemData \<Rightarrow> world \<Rightarrow> world" where
  "update file itemData w =
     (let w1 = itemDataSet (file_id file)
                 (itemData\<lparr>fileType := metadata_fileType file, fileID := file_id file\<rparr>) w
      in case needsRefreshGet w1 (file_id file) of
           None \<Rightarrow> w1
         | Some needsRefresh \<Rightarrow> emit (NeedsRefresh needsRefresh) w1)"

text \<open>
  Lines 253-258. The \<^verbatim>\<open>delete\<close> acts on the object that is in the map, which
  \<open>update\<close> then replaces by a new one within the same uninterrupted step.
\<close>

definition markFailed :: "EnteFile \<Rightarrow> world \<Rightarrow> world" where
  "markFailed file w =
     (let lastData = (case itemDataGet w (file_id file) of
                        Some d \<Rightarrow> d
                      | None \<Rightarrow> noFields file);
          lastData = lastData\<lparr>isContentLoading := None\<rparr>
      in update file (lastData\<lparr>fetchFailed := Some True\<rparr>) w)"

text \<open>The two \<^verbatim>\<open>catch\<close> blocks (lines 271-283 and 326-347).\<close>

definition catchThumbnail :: "EnteFile \<Rightarrow> world \<Rightarrow> world" where
  "catchThumbnail file w = markFailed file (emit (LogError ''Failed to fetch thumbnail'') w)"

definition catchFile :: "EnteFile \<Rightarrow> world \<Rightarrow> world" where
  "catchFile file w = markFailed file (emit (LogError ''Failed to fetch file'') w)"

text \<open>
  \<^verbatim>\<open>ensureString\<close> is imported from \<^verbatim>\<open>@/utils/ensure\<close>, which is not among the
  sources: it returns its argument when that is a string and throws otherwise
  (\<open>None\<close> here).
\<close>

definition ensureString :: "string option \<Rightarrow> string option" where
  "ensureString v = v"

text \<open>
  The start of an invocation: everything up to the first \<^verbatim>\<open>await\<close>, which is the call
  of \<^verbatim>\<open>downloadManager.renderableThumbnailURL(file)\<close>.
\<close>

definition enqueueUpdates :: "EnteFile \<Rightarrow> world \<Rightarrow> world" where
  "enqueueUpdates file w =
     (emit (Called (RenderableThumbnailURL file)) w)
       \<lparr>runs := runs w @ [(file, AwaitThumbnailURL)]\<rparr>"

text \<open>
  The code between one \<^verbatim>\<open>await\<close> and the next, given how the awaited promise settled:
  the new suspension and the new world. \<open>None\<close> where the settlement is not one the
  awaited promise can have; this includes a video whose \<^verbatim>\<open>sourceURLs.url\<close> is not a
  string, which line 301 excludes by a cast. Where \<^verbatim>\<open>ensureString\<close> throws, and where
  \<^verbatim>\<open>.image()\<close> is called on the URL of a live photo that is a string (a
  \<^verbatim>\<open>TypeError\<close>), the enclosing \<^verbatim>\<open>catch\<close> block runs.
\<close>

fun enqueueUpdates_resume ::
  "EnteFile \<Rightarrow> suspension \<Rightarrow> settlement \<Rightarrow> world \<Rightarrow> (suspension \<times> world) option" where
  "enqueueUpdates_resume file AwaitThumbnailURL Rejected w =
     Some (Returned, catchThumbnail file w)"
| "enqueueUpdates_resume file AwaitThumbnailURL (ResolvedThumbnailURL thumbnailURL) w =
     (case ensureString thumbnailURL of
        None \<Rightarrow> Some (Returned, catchThumbnail file w)
      | Some u \<Rightarrow> Some (AwaitThumbnailDimensions u, emit (Called (WithDimensions u)) w))"
| "enqueueUpdates_resume file (AwaitThumbnailDimensions u) Rejected w =
     Some (Returned, catchThumbnail file w)"
| "enqueueUpdates_resume file (AwaitThumbnailDimensions u) (ResolvedDimensions wd ht) w =
     Some (AwaitSourceURLs,
           emit (Called (RenderableSourceURLs file))
             (update file
                ((noFields file)\<lparr>src := Some u, width := Some wd, height := Some ht,
                                 isContentLoading := Some True,
                                 isContentZoomable := Some False\<rparr>) w))"
| "enqueueUpdates_resume file AwaitSourceURLs Rejected w =
     Some (Returned, catchFile file w)"
| "enqueueUpdates_resume file AwaitSourceURLs (ResolvedSourceURLs url blob) w =
     (case metadata_fileType file of
        FileType_image \<Rightarrow>
          (case url of
             URLString imgURL \<Rightarrow>
               Some (AwaitImageDimensions imgURL blob,
                     emit (Called (WithDimensions imgURL)) w)
           | URLLivePhoto \<Rightarrow> Some (Returned, catchFile file w))
      | FileType_video \<Rightarrow>
          (case url of
             URLString vidURL \<Rightarrow>
               Some (Returned, update file ((noFields file)\<lparr>videoURL := Some vidURL\<rparr>) w)
           | URLLivePhoto \<Rightarrow> None)
      | FileType_livePhoto \<Rightarrow>
          (case url of
             URLLivePhoto \<Rightarrow>
               Some (AwaitLivePhotoImage, emit (Called (LivePhotoImage file)) w)
           | URLString u \<Rightarrow> Some (Returned, catchFile file w)))"
| "enqueueUpdates_resume file (AwaitImageDimensions imgURL blob) Rejected w =
     Some (Returned, catchFile file w)"
| "enqueueUpdates_resume file (AwaitImageDimensions imgURL blob) (ResolvedDimensions wd ht) w =
     Some (Returned,
           update file
             ((noFields file)\<lparr>src := Some imgURL, width := Some wd, height := Some ht,
                              imageURL := Some imgURL, originalImageBlob := blob\<rparr>) w)"
| "enqueueUpdates_resume file AwaitLivePhotoImage Rejected w =
     Some (Returned, catchFile file w)"
| "enqueueUpdates_resume file AwaitLivePhotoImage (ResolvedLivePhotoImage img blob) w =
     (case ensureString img of
        None \<Rightarrow> Some (Returned, catchFile file w)
      | Some imgURL \<Rightarrow>
          Some (AwaitLivePhotoDimensions imgURL blob,
                emit (Called (WithDimensions imgURL))
                  (emit (Called (LivePhotoOriginalImageBlob file)) w)))"
| "enqueueUpdates_resume file (AwaitLivePhotoDimensions imgURL blob) Rejected w =
     Some (Returned, catchFile file w)"
| "enqueueUpdates_resume file (AwaitLivePhotoDimensions imgURL blob) (ResolvedDimensions wd ht) w =
     (let imageData =
            (noFields file)\<lparr>src := Some imgURL, width := Some wd, height := Some ht,
                            imageURL := Some imgURL, originalImageBlob := blob\<rparr>
      in Some (AwaitLivePhotoVideo imageData,
               emit (Called (LivePhotoVideo file)) (update file imageData w)))"
| "enqueueUpdates_resume file (AwaitLivePhotoVideo imageData) Rejected w =
     Some (Returned, catchFile file w)"
| "enqueueUpdates_resume file (AwaitLivePhotoVideo imageData) (ResolvedLivePhotoVideo vidURL) w =
     Some (Returned, update file (imageData\<lparr>videoURL := vidURL\<rparr>) w)"
| "enqueueUpdates_resume file pc settled w = None"

text \<open>The promise awaited by invocation \<open>t\<close> settles.\<close>

definition settle :: "nat \<Rightarrow> settlement \<Rightarrow> world \<Rightarrow> world" where
  "settle t settled w =
     (if t < length (runs w) then
        (case runs w ! t of
           (file, pc) \<Rightarrow>
             (case enqueueUpdates_resume file pc settled w of
                None \<Rightarrow> w
              | Some (pc', w') \<Rightarrow> w'\<lparr>runs := (runs w')[t := (file, pc')]\<rparr>))
      else w)"

subsection \<open>itemDataForFile and the forgetting of failed items (lines 202-240)\<close>

definition itemDataForFile :: "EnteFile \<Rightarrow> callback \<Rightarrow> world \<Rightarrow> ItemData \<times> world" where
  "itemDataForFile file needsRefresh w =
     (let fid = file_id file;
          ftype = metadata_fileType file;
          itemData = itemDataGet w fid;
          w1 = needsRefreshSet (file_id file) needsRefresh w
      in case itemData of
           None \<Rightarrow>
             (let itemData = (noFields file)\<lparr>fileID := fid, fileType := ftype,
                                             isContentLoading := Some True\<rparr>;
                  w2 = itemDataSet (file_id file) itemData w1
              in (itemData, enqueueUpdates file w2))
         | Some itemData \<Rightarrow> (itemData, w1))"

definition forgetFailedItemDataForFileID :: "int \<Rightarrow> world \<Rightarrow> world" where
  "forgetFailedItemDataForFileID fid w =
     (case itemDataGet w fid of
        None \<Rightarrow> w
      | Some d \<Rightarrow> if fetchFailed d = Some True then itemDataDelete fid w else w)"

text \<open>\<^verbatim>\<open>[...keys()]\<close> copies the keys before \<^verbatim>\<open>forEach\<close> deletes any.\<close>

definition forgetFailedItems :: "world \<Rightarrow> world" where
  "forgetFailedItems w =
     fold forgetFailedItemDataForFileID (map fst (itemDataByFileID (state w))) w"

subsection \<open>Exif (lines 390-469)\<close>

definition fileInfoExifForFile ::
  "EnteFile \<Rightarrow> observer \<Rightarrow> world \<Rightarrow> FileInfoExif option \<times> world" where
  "fileInfoExifForFile file obs w =
     (let fid = file_id file;
          exifData = fileInfoExifGet w fid
      in case exifData of
           Some e \<Rightarrow> (Some e, w)
         | None \<Rightarrow> (None, exifObserverSet fid obs w))"

definition createPlaceholderFileInfoExif :: FileInfoExif where
  "createPlaceholderFileInfoExif = \<lparr>tags = None, parsed = None\<rparr>"

definition updateNotifyAndReturn :: "int \<Rightarrow> FileInfoExif \<Rightarrow> world \<Rightarrow> world" where
  "updateNotifyAndReturn fid exifData w =
     (let w1 = fileInfoExifSet fid exifData w
      in case exifObserverGet w1 fid of
           None \<Rightarrow> w1
         | Some obs \<Rightarrow> emit (ExifObserved obs exifData) w1)"

text \<open>
  The part of \<^verbatim>\<open>updateFileInfoExifIfNeeded\<close> that runs within the call: up to a
  \<^verbatim>\<open>return\<close>, or up to the \<^verbatim>\<open>await extractRawExif(file)\<close>.
\<close>

definition updateFileInfoExifIfNeeded :: "ItemData \<Rightarrow> world \<Rightarrow> world" where
  "updateFileInfoExifIfNeeded itemData w =
     (if fileInfoExifGet w (fileID itemData) \<noteq> None then w
      else if fileType itemData = FileType_video then
        updateNotifyAndReturn (fileID itemData) createPlaceholderFileInfoExif w
      else
        (case originalImageBlob itemData of
           None \<Rightarrow> w
         | Some blob \<Rightarrow>
             (emit (Called (ExtractRawExif blob)) w)
               \<lparr>exifRuns := exifRuns w @ [(fileID itemData, AwaitExtractRawExif)]\<rparr>))"

fun updateFileInfoExifIfNeeded_resume :: "int \<Rightarrow> exifSettlement \<Rightarrow> world \<Rightarrow> world" where
  "updateFileInfoExifIfNeeded_resume fid ExtractRejected w =
     updateNotifyAndReturn fid createPlaceholderFileInfoExif
       (emit (LogError ''Failed to extract exif'') w)"
| "updateFileInfoExifIfNeeded_resume fid (ExtractResolved rawTags parseResult) w =
     (let w1 = emit (Called (ParseExif rawTags)) w
      in case parseResult of
           Some p \<Rightarrow> updateNotifyAndReturn fid \<lparr>tags = Some rawTags, parsed = Some p\<rparr> w1
         | None \<Rightarrow>
             updateNotifyAndReturn fid createPlaceholderFileInfoExif
               (emit (LogError ''Failed to extract exif'') w1))"

definition exifSettle :: "nat \<Rightarrow> exifSettlement \<Rightarrow> world \<Rightarrow> world" where
  "exifSettle t settled w =
     (if t < length (exifRuns w) then
        (case exifRuns w ! t of
           (fid, AwaitExtractRawExif) \<Rightarrow>
             (updateFileInfoExifIfNeeded_resume fid settled w)
               \<lparr>exifRuns := (exifRuns w)[t := (fid, ExifReturned)]\<rparr>
         | (fid, ExifReturned) \<Rightarrow> w)
      else w)"

definition forgetExifForItemData :: "ItemData \<Rightarrow> world \<Rightarrow> world" where
  "forgetExifForItemData itemData w =
     w\<lparr>state := (state w)
          \<lparr>fileInfoExifByFileID := AList.delete (fileID itemData) (fileInfoExifByFileID (state w)),
           exifObserverByFileID := AList.delete (fileID itemData) (exifObserverByFileID (state w))\<rparr>\<rparr>"

definition forgetExif :: "world \<Rightarrow> world" where
  "forgetExif w = w\<lparr>state := (state w)\<lparr>fileInfoExifByFileID := [], exifObserverByFileID := []\<rparr>\<rparr>"

subsection \<open>Histories\<close>

text \<open>
  What can happen to the module: a call of one of its exported functions, or the
  settling of a promise that one of its invocations awaits.
\<close>

datatype operation =
    ItemDataForFile EnteFile callback
  | ForgetFailedItemDataForFileID int
  | ForgetFailedItems
  | LogoutFileViewerDataSource
  | FileInfoExifForFile EnteFile observer
  | UpdateFileInfoExifIfNeeded ItemData
  | ForgetExifForItemData ItemData
  | ForgetExif
  | Settle nat settlement
  | ExifSettle nat exifSettlement

fun exec :: "operation \<Rightarrow> world \<Rightarrow> world" where
  "exec (ItemDataForFile file needsRefresh) w = snd (itemDataForFile file needsRefresh w)"
| "exec (ForgetFailedItemDataForFileID fid) w = forgetFailedItemDataForFileID fid w"
| "exec ForgetFailedItems w = forgetFailedItems w"
| "exec LogoutFileViewerDataSource w = logoutFileViewerDataSource w"
| "exec (FileInfoExifForFile file obs) w = snd (fileInfoExifForFile file obs w)"
| "exec (UpdateFileInfoExifIfNeeded itemData) w = updateFileInfoExifIfNeeded itemData w"
| "exec (ForgetExifForItemData itemData) w = forgetExifForItemData itemData w"
| "exec ForgetExif w = forgetExif w"
| "exec (Settle t settled) w = settle t settled w"
| "exec (ExifSettle t settled) w = exifSettle t settled w"

definition execs :: "operation list \<Rightarrow> world \<Rightarrow> world" where
  "execs ops w = fold exec ops w"

subsection \<open>Observations on worlds and traces\<close>

text \<open>The callbacks invoked along a trace, in order.\<close>

fun notified :: "event list \<Rightarrow> callback list" where
  "notified [] = []"
| "notified (NeedsRefresh cb # es) = cb # notified es"
| "notified (e # es) = notified es"

text \<open>The calls of \<^verbatim>\<open>extractRawExif\<close> and \<^verbatim>\<open>parseExif\<close> along a trace.\<close>

fun extractorCalls :: "event list \<Rightarrow> call list" where
  "extractorCalls [] = []"
| "extractorCalls (Called (ExtractRawExif b) # es) = ExtractRawExif b # extractorCalls es"
| "extractorCalls (Called (ParseExif t) # es) = ParseExif t # extractorCalls es"
| "extractorCalls (e # es) = extractorCalls es"

text \<open>
  The fields an \<open>ItemData\<close> has (\<open>fileID\<close> and \<open>fileType\<close> always), and the property
  that an update keeps every field but \<open>isContentLoading\<close>.
\<close>

datatype field =
    Field_src | Field_width | Field_height | Field_fileID | Field_fileType
  | Field_imageURL | Field_originalImageBlob | Field_videoURL
  | Field_isContentLoading | Field_isContentZoomable | Field_fetchFailed

definition presentFields :: "ItemData \<Rightarrow> field list" where
  "presentFields d =
     (if src d = None then [] else [Field_src]) @
     (if width d = None then [] else [Field_width]) @
     (if height d = None then [] else [Field_height]) @
     [Field_fileID, Field_fileType] @
     (if imageURL d = None then [] else [Field_imageURL]) @
     (if originalImageBlob d = None then [] else [Field_originalImageBlob]) @
     (if videoURL d = None then [] else [Field_videoURL]) @
     (if isContentLoading d = None then [] else [Field_isContentLoading]) @
     (if isContentZoomable d = None then [] else [Field_isContentZoomable]) @
     (if fetchFailed d = None then [] else [Field_fetchFailed])"

definition cachedFields :: "world \<Rightarrow> int \<Rightarrow> field list" where
  "cachedFields w fid = (case itemDataGet w fid of None \<Rightarrow> [] | Some d \<Rightarrow> presentFields d)"

definition retainsFields :: "ItemData \<Rightarrow> ItemData \<Rightarrow> bool" where
  "retainsFields old new \<longleftrightarrow>
     set (presentFields old) - {Field_isContentLoading} \<subseteq> set (presentFields new)"

text \<open>
  The number of invocations of \<^verbatim>\<open>enqueueUpdates\<close> started so far for a file ID
  (returned ones included), and the values written to the entry of a file ID along a trace.
\<close>

definition runsStarted :: "int \<Rightarrow> world \<Rightarrow> nat" where
  "runsStarted fid w = length (filter (\<lambda>file. file_id file = fid) (map fst (runs w)))"

fun cacheWrites :: "int \<Rightarrow> event list \<Rightarrow> ItemData list" where
  "cacheWrites fid [] = []"
| "cacheWrites fid (CacheSet k d # es) = (if k = fid then d # cacheWrites fid es else cacheWrites fid es)"
| "cacheWrites fid (e # es) = cacheWrites fid es"

text \<open>The entry of a file ID exists before and after every operation of a list.\<close>

fun entryKept :: "int \<Rightarrow> operation list \<Rightarrow> world \<Rightarrow> bool" where
  "entryKept fid [] w = (itemDataGet w fid \<noteq> None)"
| "entryKept fid (op # ops) w = (itemDataGet w fid \<noteq> None \<and> entryKept fid ops (exec op w))"








subsection \<open>Example inputs\<close>

definition file7 :: EnteFile where "file7 = EnteFile 7 FileType_image"
definition file9 :: EnteFile where "file9 = EnteFile 9 FileType_video"
definition file42 :: EnteFile where "file42 = EnteFile 42 FileType_image"
definition file11 :: EnteFile where "file11 = EnteFile 11 FileType_livePhoto"


section \<open>Basic facts\<close>

declare itemDataGet_def [simp] needsRefreshGet_def [simp] fileInfoExifGet_def [simp] exifObserverGet_def [simp]

lemma emit_fields [simp]:
  "state (emit e w) = state w" "runs (emit e w) = runs w" "exifRuns (emit e w) = exifRuns w"
  "trace (emit e w) = trace w @ [e]"
  by (simp_all add: emit_def)

lemma itemDataSet_fields [simp]:
  "itemDataByFileID (state (itemDataSet k v w)) = AList.update k v (itemDataByFileID (state w))"
  "needsRefreshByFileID (state (itemDataSet k v w)) = needsRefreshByFileID (state w)"
  "fileInfoExifByFileID (state (itemDataSet k v w)) = fileInfoExifByFileID (state w)"
  "exifObserverByFileID (state (itemDataSet k v w)) = exifObserverByFileID (state w)"
  "runs (itemDataSet k v w) = runs w" "exifRuns (itemDataSet k v w) = exifRuns w"
  "trace (itemDataSet k v w) = trace w @ [CacheSet k v]"
  by (simp_all add: itemDataSet_def)

lemma itemDataDelete_fields [simp]:
  "itemDataByFileID (state (itemDataDelete k w)) = AList.delete k (itemDataByFileID (state w))"
  "needsRefreshByFileID (state (itemDataDelete k w)) = needsRefreshByFileID (state w)"
  "fileInfoExifByFileID (state (itemDataDelete k w)) = fileInfoExifByFileID (state w)"
  "exifObserverByFileID (state (itemDataDelete k w)) = exifObserverByFileID (state w)"
  "runs (itemDataDelete k w) = runs w" "exifRuns (itemDataDelete k w) = exifRuns w"
  "trace (itemDataDelete k w) = trace w @ [CacheDelete k]"
  by (simp_all add: itemDataDelete_def)

lemma needsRefreshSet_fields [simp]:
  "itemDataByFileID (state (needsRefreshSet k v w)) = itemDataByFileID (state w)"
  "needsRefreshByFileID (state (needsRefreshSet k v w)) = AList.update k v (needsRefreshByFileID (state w))"
  "fileInfoExifByFileID (state (needsRefreshSet k v w)) = fileInfoExifByFileID (state w)"
  "exifObserverByFileID (state (needsRefreshSet k v w)) = exifObserverByFileID (state w)"
  "runs (needsRefreshSet k v w) = runs w" "exifRuns (needsRefreshSet k v w) = exifRuns w"
  "trace (needsRefreshSet k v w) = trace w"
  by (simp_all add: needsRefreshSet_def)

lemma fileInfoExifSet_fields [simp]:
  "itemDataByFileID (state (fileInfoExifSet k v w)) = itemDataByFileID (state w)"
  "needsRefreshByFileID (state (fileInfoExifSet k v w)) = needsRefreshByFileID (state w)"
  "fileInfoExifByFileID (state (fileInfoExifSet k v w)) = AList.update k v (fileInfoExifByFileID (state w))"
  "exifObserverByFileID (state (fileInfoExifSet k v w)) = exifObserverByFileID (state w)"
  "runs (fileInfoExifSet k v w) = runs w" "exifRuns (fileInfoExifSet k v w) = exifRuns w"
  "trace (fileInfoExifSet k v w) = trace w"
  by (simp_all add: fileInfoExifSet_def)

lemma exifObserverSet_fields [simp]:
  "itemDataByFileID (state (exifObserverSet k v w)) = itemDataByFileID (state w)"
  "needsRefreshByFileID (state (exifObserverSet k v w)) = needsRefreshByFileID (state w)"
  "fileInfoExifByFileID (state (exifObserverSet k v w)) = fileInfoExifByFileID (state w)"
  "exifObserverByFileID (state (exifObserverSet k v w)) = AList.update k v (exifObserverByFileID (state w))"
  "runs (exifObserverSet k v w) = runs w" "exifRuns (exifObserverSet k v w) = exifRuns w"
  "trace (exifObserverSet k v w) = trace w"
  by (simp_all add: exifObserverSet_def)

lemma update_fields [simp]:
  "itemDataByFileID (state (update file d w)) =
     AList.update (file_id file) (d\<lparr>fileType := metadata_fileType file, fileID := file_id file\<rparr>)
       (itemDataByFileID (state w))"
  "needsRefreshByFileID (state (update file d w)) = needsRefreshByFileID (state w)"
  "fileInfoExifByFileID (state (update file d w)) = fileInfoExifByFileID (state w)"
  "exifObserverByFileID (state (update file d w)) = exifObserverByFileID (state w)"
  "runs (update file d w) = runs w" "exifRuns (update file d w) = exifRuns w"
  "trace (update file d w) =
     trace w @ CacheSet (file_id file) (d\<lparr>fileType := metadata_fileType file, fileID := file_id file\<rparr>)
       # (case map_of (needsRefreshByFileID (state w)) (file_id file) of
            None \<Rightarrow> [] | Some cb \<Rightarrow> [NeedsRefresh cb])"
  by (simp_all add: update_def Let_def split: option.split)

lemma markFailed_fields [simp]:
  "needsRefreshByFileID (state (markFailed file w)) = needsRefreshByFileID (state w)"
  "fileInfoExifByFileID (state (markFailed file w)) = fileInfoExifByFileID (state w)"
  "exifObserverByFileID (state (markFailed file w)) = exifObserverByFileID (state w)"
  "runs (markFailed file w) = runs w" "exifRuns (markFailed file w) = exifRuns w"
  by (simp_all add: markFailed_def Let_def)


lemma catch_fields [simp]:
  "needsRefreshByFileID (state (catchThumbnail file w)) = needsRefreshByFileID (state w)"
  "fileInfoExifByFileID (state (catchThumbnail file w)) = fileInfoExifByFileID (state w)"
  "exifObserverByFileID (state (catchThumbnail file w)) = exifObserverByFileID (state w)"
  "runs (catchThumbnail file w) = runs w" "exifRuns (catchThumbnail file w) = exifRuns w"
  "needsRefreshByFileID (state (catchFile file w)) = needsRefreshByFileID (state w)"
  "fileInfoExifByFileID (state (catchFile file w)) = fileInfoExifByFileID (state w)"
  "exifObserverByFileID (state (catchFile file w)) = exifObserverByFileID (state w)"
  "runs (catchFile file w) = runs w" "exifRuns (catchFile file w) = exifRuns w"
  by (simp_all add: catchThumbnail_def catchFile_def)

lemma enqueueUpdates_fields [simp]:
  "state (enqueueUpdates file w) = state w"
  "runs (enqueueUpdates file w) = runs w @ [(file, AwaitThumbnailURL)]"
  "exifRuns (enqueueUpdates file w) = exifRuns w"
  "trace (enqueueUpdates file w) = trace w @ [Called (RenderableThumbnailURL file)]"
  by (simp_all add: enqueueUpdates_def)

lemma forgetFailed_fields [simp]:
  "needsRefreshByFileID (state (forgetFailedItemDataForFileID k w)) = needsRefreshByFileID (state w)"
  "fileInfoExifByFileID (state (forgetFailedItemDataForFileID k w)) = fileInfoExifByFileID (state w)"
  "exifObserverByFileID (state (forgetFailedItemDataForFileID k w)) = exifObserverByFileID (state w)"
  "runs (forgetFailedItemDataForFileID k w) = runs w"
  "exifRuns (forgetFailedItemDataForFileID k w) = exifRuns w"
  by (simp_all add: forgetFailedItemDataForFileID_def split: option.split)

lemma fold_forgetFailed_fields [simp]:
  "needsRefreshByFileID (state (fold forgetFailedItemDataForFileID ks w)) = needsRefreshByFileID (state w)"
  "fileInfoExifByFileID (state (fold forgetFailedItemDataForFileID ks w)) = fileInfoExifByFileID (state w)"
  "exifObserverByFileID (state (fold forgetFailedItemDataForFileID ks w)) = exifObserverByFileID (state w)"
  "runs (fold forgetFailedItemDataForFileID ks w) = runs w"
  "exifRuns (fold forgetFailedItemDataForFileID ks w) = exifRuns w"
  by (induction ks arbitrary: w; simp)+

lemma initial_fields [simp]:
  "itemDataByFileID (state initial) = []" "needsRefreshByFileID (state initial) = []"
  "fileInfoExifByFileID (state initial) = []" "exifObserverByFileID (state initial) = []"
  "runs initial = []" "exifRuns initial = []" "trace initial = []"
  by (simp_all add: initial_def newFileViewerDataSourceState_def)

lemma notified_append [simp]: "notified (xs @ ys) = notified xs @ notified ys"
  by (induction xs rule: notified.induct) simp_all

lemma forgetFailed_notified [simp]:
  "notified (trace (forgetFailedItemDataForFileID k w)) = notified (trace w)"
  by (simp add: forgetFailedItemDataForFileID_def split: option.split)

lemma fold_forgetFailed_notified [simp]:
  "notified (trace (fold forgetFailedItemDataForFileID ks w)) = notified (trace w)"
  by (induction ks arbitrary: w) simp_all

lemma extractorCalls_append [simp]: "extractorCalls (xs @ ys) = extractorCalls xs @ extractorCalls ys"
  by (induction xs rule: extractorCalls.induct) simp_all

lemma updateNotifyAndReturn_fields [simp]:
  "itemDataByFileID (state (updateNotifyAndReturn k e w)) = itemDataByFileID (state w)"
  "needsRefreshByFileID (state (updateNotifyAndReturn k e w)) = needsRefreshByFileID (state w)"
  "fileInfoExifByFileID (state (updateNotifyAndReturn k e w)) = AList.update k e (fileInfoExifByFileID (state w))"
  "exifObserverByFileID (state (updateNotifyAndReturn k e w)) = exifObserverByFileID (state w)"
  "runs (updateNotifyAndReturn k e w) = runs w" "exifRuns (updateNotifyAndReturn k e w) = exifRuns w"
  "trace (updateNotifyAndReturn k e w) =
     trace w @ (case map_of (exifObserverByFileID (state w)) k of None \<Rightarrow> [] | Some obs \<Rightarrow> [ExifObserved obs e])"
  by (simp_all add: updateNotifyAndReturn_def Let_def split: option.split)

lemma resume_Returned [simp]: "enqueueUpdates_resume file Returned s w = None"
  by (cases s) simp_all

subsection \<open>Operations that leave the item data alone\<close>

lemma cacheWrites_append [simp]: "cacheWrites fid (xs @ ys) = cacheWrites fid xs @ cacheWrites fid ys"
  by (induction fid xs rule: cacheWrites.induct) simp_all

lemma logout_fields [simp]:
  "state (logoutFileViewerDataSource w) = newFileViewerDataSourceState"
  "runs (logoutFileViewerDataSource w) = runs w" "exifRuns (logoutFileViewerDataSource w) = exifRuns w"
  "trace (logoutFileViewerDataSource w) = trace w"
  by (simp_all add: logoutFileViewerDataSource_def)

lemma updateFileInfoExifIfNeeded_fields [simp]:
  "itemDataByFileID (state (updateFileInfoExifIfNeeded d w)) = itemDataByFileID (state w)"
  "needsRefreshByFileID (state (updateFileInfoExifIfNeeded d w)) = needsRefreshByFileID (state w)"
  "runs (updateFileInfoExifIfNeeded d w) = runs w"
  "cacheWrites k (trace (updateFileInfoExifIfNeeded d w)) = cacheWrites k (trace w)"
  by (simp_all add: updateFileInfoExifIfNeeded_def split: option.split)

lemma updateFileInfoExifIfNeeded_resume_fields [simp]:
  "itemDataByFileID (state (updateFileInfoExifIfNeeded_resume k s w)) = itemDataByFileID (state w) \<and>
   needsRefreshByFileID (state (updateFileInfoExifIfNeeded_resume k s w)) = needsRefreshByFileID (state w) \<and>
   runs (updateFileInfoExifIfNeeded_resume k s w) = runs w \<and>
   cacheWrites k' (trace (updateFileInfoExifIfNeeded_resume k s w)) = cacheWrites k' (trace w)"
  by (cases s) (simp_all add: Let_def split: option.split)

lemma exifSettle_fields [simp]:
  "itemDataByFileID (state (exifSettle t s w)) = itemDataByFileID (state w)"
  "needsRefreshByFileID (state (exifSettle t s w)) = needsRefreshByFileID (state w)"
  "runs (exifSettle t s w) = runs w"
  "cacheWrites k (trace (exifSettle t s w)) = cacheWrites k (trace w)"
  by (simp_all add: exifSettle_def split: prod.split exifSuspension.split)

lemma fileInfoExifForFile_fields [simp]:
  "itemDataByFileID (state (snd (fileInfoExifForFile file obs w))) = itemDataByFileID (state w)"
  "needsRefreshByFileID (state (snd (fileInfoExifForFile file obs w))) = needsRefreshByFileID (state w)"
  "runs (snd (fileInfoExifForFile file obs w)) = runs w"
  "trace (snd (fileInfoExifForFile file obs w)) = trace w"
  by (simp_all add: fileInfoExifForFile_def Let_def split: option.split)

lemma forgetExif_fields [simp]:
  "itemDataByFileID (state (forgetExifForItemData d w)) = itemDataByFileID (state w)"
  "needsRefreshByFileID (state (forgetExifForItemData d w)) = needsRefreshByFileID (state w)"
  "runs (forgetExifForItemData d w) = runs w"
  "trace (forgetExifForItemData d w) = trace w"
  "itemDataByFileID (state (forgetExif w)) = itemDataByFileID (state w)"
  "needsRefreshByFileID (state (forgetExif w)) = needsRefreshByFileID (state w)"
  "runs (forgetExif w) = runs w"
  "trace (forgetExif w) = trace w"
  by (simp_all add: forgetExifForItemData_def forgetExif_def)

lemma markFailed_trace:
  "trace (markFailed file w) =
     trace w @ CacheSet (file_id file)
       ((case map_of (itemDataByFileID (state w)) (file_id file) of
           Some d \<Rightarrow> d | None \<Rightarrow> noFields file)
        \<lparr>isContentLoading := None, fetchFailed := Some True,
         fileType := metadata_fileType file, fileID := file_id file\<rparr>)
       # (case map_of (needsRefreshByFileID (state w)) (file_id file) of
            None \<Rightarrow> [] | Some cb \<Rightarrow> [NeedsRefresh cb])"
  by (simp add: markFailed_def Let_def)

lemma cacheWrites_notification [simp]:
  "cacheWrites k (case x of None \<Rightarrow> [] | Some cb \<Rightarrow> [NeedsRefresh cb]) = []"
  by (cases x) simp_all

subsection \<open>One step of enqueueUpdates\<close>

lemma resume_frame:
  assumes "enqueueUpdates_resume file pc s w = Some (pc', w')"
  shows "pc \<noteq> Returned \<and> runs w' = runs w \<and> exifRuns w' = exifRuns w \<and>
     needsRefreshByFileID (state w') = needsRefreshByFileID (state w) \<and>
     fileInfoExifByFileID (state w') = fileInfoExifByFileID (state w) \<and>
     exifObserverByFileID (state w') = exifObserverByFileID (state w)"
  using assms
  by (cases pc; cases s)
     (auto simp add: ensureString_def Let_def split: option.splits FileType.splits SourceURL.splits)




lemma list_update_same_file:
  "t < length rs \<Longrightarrow> map fst (rs[t := (fst (rs ! t), pc)]) = map fst rs"
  by (simp add: map_update list_update_same_conv)

lemma settle_files: "map fst (runs (settle t s w)) = map fst (runs w)"
proof (cases "t < length (runs w)")
  case False
  then show ?thesis by (simp add: settle_def)
next
  case True
  obtain fl pc where run: "runs w ! t = (fl, pc)"
    by (cases "runs w ! t")
  show ?thesis
  proof (cases "enqueueUpdates_resume fl pc s w")
    case None
    with True run show ?thesis by (simp add: settle_def)
  next
    case (Some r)
    obtain pc' w' where r: "r = (pc', w')"
      by (cases r)
    from Some r resume_frame [of fl pc s w pc' w'] have "runs w' = runs w"
      by simp
    with True run Some r list_update_same_file [of t "runs w" pc'] show ?thesis
      by (simp add: settle_def)
  qed
qed

lemma itemDataForFile_present:
  assumes "itemDataGet w (file_id file) \<noteq> None"
  shows "itemDataGet w (file_id file) = Some (fst (itemDataForFile file cb w))"
    and "runs (snd (itemDataForFile file cb w)) = runs w"
    and "itemDataByFileID (state (snd (itemDataForFile file cb w))) = itemDataByFileID (state w)"
    and "trace (snd (itemDataForFile file cb w)) = trace w"
  using assms by (auto simp add: itemDataForFile_def Let_def)

lemma itemDataForFile_absent:
  assumes "itemDataGet w (file_id file) = None"
  shows "fst (itemDataForFile file cb w) = (noFields file)\<lparr>isContentLoading := Some True\<rparr>"
    and "runs (snd (itemDataForFile file cb w)) = runs w @ [(file, AwaitThumbnailURL)]"
    and "itemDataByFileID (state (snd (itemDataForFile file cb w))) =
           AList.update (file_id file) ((noFields file)\<lparr>isContentLoading := Some True\<rparr>)
             (itemDataByFileID (state w))"
    and "trace (snd (itemDataForFile file cb w)) =
           trace w @ [CacheSet (file_id file) ((noFields file)\<lparr>isContentLoading := Some True\<rparr>),
                      Called (RenderableThumbnailURL file)]"
  using assms by (auto simp add: itemDataForFile_def Let_def noFields_def)

lemma itemDataForFile_needsRefresh [simp]:
  "needsRefreshByFileID (state (snd (itemDataForFile file cb w))) =
     AList.update (file_id file) cb (needsRefreshByFileID (state w))"
  by (simp add: itemDataForFile_def Let_def split: option.split)

lemma exec_runsStarted:
  assumes "itemDataGet w fid \<noteq> None"
  shows "runsStarted fid (exec op w) = runsStarted fid w"
proof (cases op)
  case (ItemDataForFile fl cb)
  show ?thesis
  proof (cases "itemDataGet w (file_id fl)")
    case None
    with assms have "file_id fl \<noteq> fid"
      by auto
    with None ItemDataForFile show ?thesis
      by (simp add: runsStarted_def itemDataForFile_absent(2) del: itemDataGet_def)
  next
    case (Some d)
    with ItemDataForFile show ?thesis
      by (simp add: runsStarted_def itemDataForFile_present(2) del: itemDataGet_def)
  qed
next
  case (Settle t s)
  then show ?thesis
    by (simp add: runsStarted_def settle_files)
qed (simp_all add: runsStarted_def forgetFailedItems_def)

lemma entryKept_runsStarted:
  "entryKept fid ops w \<Longrightarrow> runsStarted fid (execs ops w) = runsStarted fid w"
proof (induction ops arbitrary: w)
  case Nil
  then show ?case by (simp add: execs_def)
next
  case (Cons op ops)
  from Cons.prems have present: "itemDataGet w fid \<noteq> None" and kept: "entryKept fid ops (exec op w)"
    by simp_all
  from Cons.IH [OF kept] exec_runsStarted [OF present, of op] show ?case
    by (simp add: execs_def)
qed

subsection \<open>The invariant of histories without a reset in flight\<close>
















subsection \<open>A run between its own steps\<close>







lemma settle_at:
  assumes "t < length (runs w)" and "runs w ! t = (fl, pc)"
    and "enqueueUpdates_resume fl pc s w = Some (pc', w')"
  shows "settle t s w = w'\<lparr>runs := (runs w)[t := (fl, pc')]\<rparr>"
proof -
  from resume_frame [OF assms(3)] have "runs w' = runs w"
    by simp
  with assms show ?thesis
    by (simp add: settle_def)
qed








lemma settle_notified:
  "notified (trace (settle t s w)) = notified (trace w) \<or>
   (t < length (runs w) \<and>
    notified (trace (settle t s w)) =
      notified (trace w) @
        (case needsRefreshGet w (file_id (fst (runs w ! t))) of None \<Rightarrow> [] | Some cb \<Rightarrow> [cb]))"
proof (cases "t < length (runs w)")
  case False
  then show ?thesis by (simp add: settle_def)
next
  case True
  obtain fl pc where run: "runs w ! t = (fl, pc)"
    by (cases "runs w ! t")
  show ?thesis
  proof (cases "enqueueUpdates_resume fl pc s w")
    case None
    with True run show ?thesis by (simp add: settle_def)
  next
    case (Some r)
    obtain pc' w' where r: "r = (pc', w')"
      by (cases r)
    with Some have step: "enqueueUpdates_resume fl pc s w = Some (pc', w')"
      by simp
    from step have "notified (trace w') = notified (trace w) \<or>
        notified (trace w') = notified (trace w) @
          (case map_of (needsRefreshByFileID (state w)) (file_id fl) of None \<Rightarrow> [] | Some cb \<Rightarrow> [cb])"
      by (cases pc; cases s)
         (auto simp add: ensureString_def Let_def catchThumbnail_def catchFile_def markFailed_trace
           split: option.splits FileType.splits SourceURL.splits)
    with settle_at [OF True run step] True run show ?thesis
      by auto
  qed
qed

section \<open>The claims\<close>

text \<open>
  Claim C1 as stated fails. For the video 9, the update of the original stage removes
  \<open>src\<close>, \<open>width\<close>, \<open>height\<close> and \<open>isContentZoomable\<close>, which the thumbnail stage had set.
  For the image 7, the update of the original stage removes \<open>isContentZoomable\<close>. For the
  live photo 11, \<open>isContentLoading\<close> is gone after the update of the image component,
  while the run has not returned: it still awaits the video component.
\<close>

theorem update_drops_fields:
  "itemDataGet (execs [ItemDataForFile file9 (Callback 1),
                       Settle 0 (ResolvedThumbnailURL (Some ''T'')),
                       Settle 0 (ResolvedDimensions 4 3)] initial) 9 =
     Some \<lparr>src = Some ''T'', width = Some 4, height = Some 3, fileID = 9, fileType = FileType_video,
           imageURL = None, originalImageBlob = None, videoURL = None,
           isContentLoading = Some True, isContentZoomable = Some False, fetchFailed = None\<rparr> \<and>
   itemDataGet (execs [ItemDataForFile file9 (Callback 1),
                       Settle 0 (ResolvedThumbnailURL (Some ''T'')),
                       Settle 0 (ResolvedDimensions 4 3),
                       Settle 0 (ResolvedSourceURLs (URLString ''V'') None)] initial) 9 =
     Some \<lparr>src = None, width = None, height = None, fileID = 9, fileType = FileType_video,
           imageURL = None, originalImageBlob = None, videoURL = Some ''V'',
           isContentLoading = None, isContentZoomable = None, fetchFailed = None\<rparr> \<and>
   \<not> retainsFields
       \<lparr>src = Some ''T'', width = Some 4, height = Some 3, fileID = 9, fileType = FileType_video,
           imageURL = None, originalImageBlob = None, videoURL = None,
           isContentLoading = Some True, isContentZoomable = Some False, fetchFailed = None\<rparr>
       \<lparr>src = None, width = None, height = None, fileID = 9, fileType = FileType_video,
           imageURL = None, originalImageBlob = None, videoURL = Some ''V'',
           isContentLoading = None, isContentZoomable = None, fetchFailed = None\<rparr> \<and>
   itemDataGet (execs [ItemDataForFile file7 (Callback 1),
                       Settle 0 (ResolvedThumbnailURL (Some ''T'')),
                       Settle 0 (ResolvedDimensions 4 3)] initial) 7 =
     Some \<lparr>src = Some ''T'', width = Some 4, height = Some 3, fileID = 7, fileType = FileType_image,
           imageURL = None, originalImageBlob = None, videoURL = None,
           isContentLoading = Some True, isContentZoomable = Some False, fetchFailed = None\<rparr> \<and>
   itemDataGet (execs [ItemDataForFile file7 (Callback 1),
                       Settle 0 (ResolvedThumbnailURL (Some ''T'')),
                       Settle 0 (ResolvedDimensions 4 3),
                       Settle 0 (ResolvedSourceURLs (URLString ''O'') (Some (Blob ''B''))),
                       Settle 0 (ResolvedDimensions 40 30)] initial) 7 =
     Some \<lparr>src = Some ''O'', width = Some 40, height = Some 30, fileID = 7, fileType = FileType_image,
           imageURL = Some ''O'', originalImageBlob = Some (Blob ''B''), videoURL = None,
           isContentLoading = None, isContentZoomable = None, fetchFailed = None\<rparr> \<and>
   \<not> retainsFields
       \<lparr>src = Some ''T'', width = Some 4, height = Some 3, fileID = 7, fileType = FileType_image,
           imageURL = None, originalImageBlob = None, videoURL = None,
           isContentLoading = Some True, isContentZoomable = Some False, fetchFailed = None\<rparr>
       \<lparr>src = Some ''O'', width = Some 40, height = Some 30, fileID = 7, fileType = FileType_image,
           imageURL = Some ''O'', originalImageBlob = Some (Blob ''B''), videoURL = None,
           isContentLoading = None, isContentZoomable = None, fetchFailed = None\<rparr> \<and>
   cachedFields (execs [ItemDataForFile file11 (Callback 1),
                        Settle 0 (ResolvedThumbnailURL (Some ''T'')),
                        Settle 0 (ResolvedDimensions 4 3),
                        Settle 0 (ResolvedSourceURLs URLLivePhoto None),
                        Settle 0 (ResolvedLivePhotoImage (Some ''I'') (Some (Blob ''B''))),
                        Settle 0 (ResolvedDimensions 40 30)] initial) 11 =
     [Field_src, Field_width, Field_height, Field_fileID, Field_fileType,
      Field_imageURL, Field_originalImageBlob] \<and>
   map snd (runs (execs [ItemDataForFile file11 (Callback 1),
                        Settle 0 (ResolvedThumbnailURL (Some ''T'')),
                        Settle 0 (ResolvedDimensions 4 3),
                        Settle 0 (ResolvedSourceURLs URLLivePhoto None),
                        Settle 0 (ResolvedLivePhotoImage (Some ''I'') (Some (Blob ''B''))),
                        Settle 0 (ResolvedDimensions 40 30)] initial)) \<noteq> [Returned]"
  by code_simp

text \<open>
  Claim C1, as amended. A cache update of a step that does not fail replaces the entry
  of the file, whatever it holds, by the fields of its stage with \<open>fileID\<close> and
  \<open>fileType\<close>; of the entry before it keeps nothing but what the stage sets again.
  The thumbnail update sets \<open>src\<close> to the thumbnail URL, \<open>width\<close> and \<open>height\<close> to its
  dimensions, \<open>isContentLoading\<close> to true and \<open>isContentZoomable\<close> to false. The
  original-stage update of an image, and the image-component update of a live photo
  (which comes before the video component is resolved), set \<open>src\<close> and \<open>imageURL\<close> to the
  URL of the original, \<open>width\<close> and \<open>height\<close> to its dimensions and \<open>originalImageBlob\<close> to
  the blob if there is one; they leave \<open>isContentLoading\<close> and \<open>isContentZoomable\<close> absent.
  The video-component update of a live photo writes the fields of the image-component
  update, which the run has kept, with \<open>videoURL\<close> set to what \<^verbatim>\<open>video()\<close> resolved with
  (absent if that is undefined). The update of a video sets \<open>videoURL\<close> and nothing else.
  The other steps that do not fail (a resolved thumbnail URL, resolved source URLs of an
  image or a live photo, a resolved image component) do not write the item data.
\<close>

theorem update_replaces_entry:
  assumes "t < length (runs w)" and "runs w ! t = (file, pc)"
  shows
    "(pc = AwaitThumbnailDimensions tURL \<longrightarrow>
        itemDataGet (settle t (ResolvedDimensions wd ht) w) (file_id file) =
          Some \<lparr>src = Some tURL, width = Some wd, height = Some ht,
                fileID = file_id file, fileType = metadata_fileType file,
                imageURL = None, originalImageBlob = None, videoURL = None,
                isContentLoading = Some True, isContentZoomable = Some False, fetchFailed = None\<rparr>) \<and>
     (pc = AwaitImageDimensions oURL blob \<longrightarrow>
        itemDataGet (settle t (ResolvedDimensions wd ht) w) (file_id file) =
          Some \<lparr>src = Some oURL, width = Some wd, height = Some ht,
                fileID = file_id file, fileType = metadata_fileType file,
                imageURL = Some oURL, originalImageBlob = blob, videoURL = None,
                isContentLoading = None, isContentZoomable = None, fetchFailed = None\<rparr>) \<and>
     (pc = AwaitSourceURLs \<and> metadata_fileType file = FileType_video \<longrightarrow>
        itemDataGet (settle t (ResolvedSourceURLs (URLString vURL) blob) w) (file_id file) =
          Some \<lparr>src = None, width = None, height = None,
                fileID = file_id file, fileType = FileType_video,
                imageURL = None, originalImageBlob = None, videoURL = Some vURL,
                isContentLoading = None, isContentZoomable = None, fetchFailed = None\<rparr>) \<and>
     (pc = AwaitLivePhotoDimensions iURL blob \<longrightarrow>
        itemDataGet (settle t (ResolvedDimensions wd ht) w) (file_id file) =
          Some \<lparr>src = Some iURL, width = Some wd, height = Some ht,
                fileID = file_id file, fileType = metadata_fileType file,
                imageURL = Some iURL, originalImageBlob = blob, videoURL = None,
                isContentLoading = None, isContentZoomable = None, fetchFailed = None\<rparr> \<and>
        runs (settle t (ResolvedDimensions wd ht) w) ! t =
          (file, AwaitLivePhotoVideo
             \<lparr>src = Some iURL, width = Some wd, height = Some ht,
              fileID = file_id file, fileType = metadata_fileType file,
              imageURL = Some iURL, originalImageBlob = blob, videoURL = None,
              isContentLoading = None, isContentZoomable = None, fetchFailed = None\<rparr>)) \<and>
     (pc = AwaitLivePhotoVideo imageData \<longrightarrow>
        itemDataGet (settle t (ResolvedLivePhotoVideo video) w) (file_id file) =
          Some (imageData\<lparr>videoURL := video, fileType := metadata_fileType file,
                          fileID := file_id file\<rparr>)) \<and>
     (pc = AwaitThumbnailURL \<longrightarrow>
        itemDataByFileID (state (settle t (ResolvedThumbnailURL (Some tURL)) w)) =
          itemDataByFileID (state w)) \<and>
     (pc = AwaitSourceURLs \<and> metadata_fileType file = FileType_image \<longrightarrow>
        itemDataByFileID (state (settle t (ResolvedSourceURLs (URLString oURL) blob) w)) =
          itemDataByFileID (state w)) \<and>
     (pc = AwaitSourceURLs \<and> metadata_fileType file = FileType_livePhoto \<longrightarrow>
        itemDataByFileID (state (settle t (ResolvedSourceURLs URLLivePhoto blob) w)) =
          itemDataByFileID (state w)) \<and>
     (pc = AwaitLivePhotoImage \<longrightarrow>
        itemDataByFileID (state (settle t (ResolvedLivePhotoImage (Some iURL) blob) w)) =
          itemDataByFileID (state w))"
  using assms
  by (simp add: settle_def Let_def noFields_def ensureString_def update_conv')

theorem update_replaces_entry_witness:
  "itemDataByFileID (state (settle 0 (ResolvedThumbnailURL (Some ''T''))
      (execs [ItemDataForFile file9 (Callback 1)] initial))) =
     itemDataByFileID (state (execs [ItemDataForFile file9 (Callback 1)] initial)) \<and>
   itemDataGet (settle 0 (ResolvedDimensions 4 3)
      (execs [ItemDataForFile file9 (Callback 1),
        Settle 0 (ResolvedThumbnailURL (Some ''T''))] initial)) 9 =
     Some \<lparr>src = Some ''T'', width = Some 4, height = Some 3, fileID = 9, fileType = FileType_video,
             imageURL = None, originalImageBlob = None, videoURL = None,
             isContentLoading = Some True, isContentZoomable = Some False, fetchFailed = None\<rparr> \<and>
   itemDataGet (settle 0 (ResolvedSourceURLs (URLString ''V'') None)
      (execs [ItemDataForFile file9 (Callback 1),
        Settle 0 (ResolvedThumbnailURL (Some ''T'')),
        Settle 0 (ResolvedDimensions 4 3)] initial)) 9 =
     Some \<lparr>src = None, width = None, height = None, fileID = 9, fileType = FileType_video,
             imageURL = None, originalImageBlob = None, videoURL = Some ''V'',
             isContentLoading = None, isContentZoomable = None, fetchFailed = None\<rparr> \<and>
   itemDataByFileID (state (settle 0 (ResolvedSourceURLs (URLString ''O'') None)
      (execs [ItemDataForFile file7 (Callback 1),
        Settle 0 (ResolvedThumbnailURL (Some ''T'')),
        Settle 0 (ResolvedDimensions 4 3)] initial))) =
     itemDataByFileID (state (execs [ItemDataForFile file7 (Callback 1),
        Settle 0 (ResolvedThumbnailURL (Some ''T'')),
        Settle 0 (ResolvedDimensions 4 3)] initial)) \<and>
   itemDataGet (settle 0 (ResolvedDimensions 40 30)
      (execs [ItemDataForFile file7 (Callback 1),
        Settle 0 (ResolvedThumbnailURL (Some ''T'')),
        Settle 0 (ResolvedDimensions 4 3),
        Settle 0 (ResolvedSourceURLs (URLString ''O'') None)] initial)) 7 =
     Some \<lparr>src = Some ''O'', width = Some 40, height = Some 30, fileID = 7, fileType = FileType_image,
             imageURL = Some ''O'', originalImageBlob = None, videoURL = None,
             isContentLoading = None, isContentZoomable = None, fetchFailed = None\<rparr> \<and>
   itemDataByFileID (state (settle 0 (ResolvedSourceURLs URLLivePhoto None)
      (execs [ItemDataForFile file11 (Callback 1),
        Settle 0 (ResolvedThumbnailURL (Some ''T'')),
        Settle 0 (ResolvedDimensions 4 3)] initial))) =
     itemDataByFileID (state (execs [ItemDataForFile file11 (Callback 1),
        Settle 0 (ResolvedThumbnailURL (Some ''T'')),
        Settle 0 (ResolvedDimensions 4 3)] initial)) \<and>
   itemDataByFileID (state (settle 0 (ResolvedLivePhotoImage (Some ''I'') (Some (Blob ''B'')))
      (execs [ItemDataForFile file11 (Callback 1),
        Settle 0 (ResolvedThumbnailURL (Some ''T'')),
        Settle 0 (ResolvedDimensions 4 3),
        Settle 0 (ResolvedSourceURLs URLLivePhoto None)] initial))) =
     itemDataByFileID (state (execs [ItemDataForFile file11 (Callback 1),
        Settle 0 (ResolvedThumbnailURL (Some ''T'')),
        Settle 0 (ResolvedDimensions 4 3),
        Settle 0 (ResolvedSourceURLs URLLivePhoto None)] initial)) \<and>
   itemDataGet (settle 0 (ResolvedDimensions 40 30)
      (execs [ItemDataForFile file11 (Callback 1),
        Settle 0 (ResolvedThumbnailURL (Some ''T'')),
        Settle 0 (ResolvedDimensions 4 3),
        Settle 0 (ResolvedSourceURLs URLLivePhoto None),
        Settle 0 (ResolvedLivePhotoImage (Some ''I'') (Some (Blob ''B'')))] initial)) 11 =
     Some \<lparr>src = Some ''I'', width = Some 40, height = Some 30, fileID = 11, fileType = FileType_livePhoto,
             imageURL = Some ''I'', originalImageBlob = Some (Blob ''B''), videoURL = None,
             isContentLoading = None, isContentZoomable = None, fetchFailed = None\<rparr> \<and>
   itemDataGet (settle 0 (ResolvedLivePhotoVideo None)
      (execs [ItemDataForFile file11 (Callback 1),
        Settle 0 (ResolvedThumbnailURL (Some ''T'')),
        Settle 0 (ResolvedDimensions 4 3),
        Settle 0 (ResolvedSourceURLs URLLivePhoto None),
        Settle 0 (ResolvedLivePhotoImage (Some ''I'') (Some (Blob ''B''))),
        Settle 0 (ResolvedDimensions 40 30)] initial)) 11 =
     Some \<lparr>src = Some ''I'', width = Some 40, height = Some 30, fileID = 11, fileType = FileType_livePhoto,
             imageURL = Some ''I'', originalImageBlob = Some (Blob ''B''), videoURL = None,
             isContentLoading = None, isContentZoomable = None, fetchFailed = None\<rparr>"
proof -
  have v1: "0 < length (runs (execs [ItemDataForFile file9 (Callback 1)] initial))"
    "runs (execs [ItemDataForFile file9 (Callback 1)] initial) ! 0 =
       (file9, AwaitThumbnailURL)"
    by code_simp+
  have v2: "0 < length (runs (execs [ItemDataForFile file9 (Callback 1),
        Settle 0 (ResolvedThumbnailURL (Some ''T''))] initial))"
    "runs (execs [ItemDataForFile file9 (Callback 1),
        Settle 0 (ResolvedThumbnailURL (Some ''T''))] initial) ! 0 =
       (file9, AwaitThumbnailDimensions ''T'')"
    by code_simp+
  have v3: "0 < length (runs (execs [ItemDataForFile file9 (Callback 1),
        Settle 0 (ResolvedThumbnailURL (Some ''T'')),
        Settle 0 (ResolvedDimensions 4 3)] initial))"
    "runs (execs [ItemDataForFile file9 (Callback 1),
        Settle 0 (ResolvedThumbnailURL (Some ''T'')),
        Settle 0 (ResolvedDimensions 4 3)] initial) ! 0 =
       (file9, AwaitSourceURLs)"
    by code_simp+
  have i3: "0 < length (runs (execs [ItemDataForFile file7 (Callback 1),
        Settle 0 (ResolvedThumbnailURL (Some ''T'')),
        Settle 0 (ResolvedDimensions 4 3)] initial))"
    "runs (execs [ItemDataForFile file7 (Callback 1),
        Settle 0 (ResolvedThumbnailURL (Some ''T'')),
        Settle 0 (ResolvedDimensions 4 3)] initial) ! 0 =
       (file7, AwaitSourceURLs)"
    by code_simp+
  have i4: "0 < length (runs (execs [ItemDataForFile file7 (Callback 1),
        Settle 0 (ResolvedThumbnailURL (Some ''T'')),
        Settle 0 (ResolvedDimensions 4 3),
        Settle 0 (ResolvedSourceURLs (URLString ''O'') None)] initial))"
    "runs (execs [ItemDataForFile file7 (Callback 1),
        Settle 0 (ResolvedThumbnailURL (Some ''T'')),
        Settle 0 (ResolvedDimensions 4 3),
        Settle 0 (ResolvedSourceURLs (URLString ''O'') None)] initial) ! 0 =
       (file7, AwaitImageDimensions ''O'' None)"
    by code_simp+
  have l3: "0 < length (runs (execs [ItemDataForFile file11 (Callback 1),
        Settle 0 (ResolvedThumbnailURL (Some ''T'')),
        Settle 0 (ResolvedDimensions 4 3)] initial))"
    "runs (execs [ItemDataForFile file11 (Callback 1),
        Settle 0 (ResolvedThumbnailURL (Some ''T'')),
        Settle 0 (ResolvedDimensions 4 3)] initial) ! 0 =
       (file11, AwaitSourceURLs)"
    by code_simp+
  have l4: "0 < length (runs (execs [ItemDataForFile file11 (Callback 1),
        Settle 0 (ResolvedThumbnailURL (Some ''T'')),
        Settle 0 (ResolvedDimensions 4 3),
        Settle 0 (ResolvedSourceURLs URLLivePhoto None)] initial))"
    "runs (execs [ItemDataForFile file11 (Callback 1),
        Settle 0 (ResolvedThumbnailURL (Some ''T'')),
        Settle 0 (ResolvedDimensions 4 3),
        Settle 0 (ResolvedSourceURLs URLLivePhoto None)] initial) ! 0 =
       (file11, AwaitLivePhotoImage)"
    by code_simp+
  have l5: "0 < length (runs (execs [ItemDataForFile file11 (Callback 1),
        Settle 0 (ResolvedThumbnailURL (Some ''T'')),
        Settle 0 (ResolvedDimensions 4 3),
        Settle 0 (ResolvedSourceURLs URLLivePhoto None),
        Settle 0 (ResolvedLivePhotoImage (Some ''I'') (Some (Blob ''B'')))] initial))"
    "runs (execs [ItemDataForFile file11 (Callback 1),
        Settle 0 (ResolvedThumbnailURL (Some ''T'')),
        Settle 0 (ResolvedDimensions 4 3),
        Settle 0 (ResolvedSourceURLs URLLivePhoto None),
        Settle 0 (ResolvedLivePhotoImage (Some ''I'') (Some (Blob ''B'')))] initial) ! 0 =
       (file11, AwaitLivePhotoDimensions ''I'' (Some (Blob ''B'')))"
    by code_simp+
  have l6: "0 < length (runs (execs [ItemDataForFile file11 (Callback 1),
        Settle 0 (ResolvedThumbnailURL (Some ''T'')),
        Settle 0 (ResolvedDimensions 4 3),
        Settle 0 (ResolvedSourceURLs URLLivePhoto None),
        Settle 0 (ResolvedLivePhotoImage (Some ''I'') (Some (Blob ''B''))),
        Settle 0 (ResolvedDimensions 40 30)] initial))"
    "runs (execs [ItemDataForFile file11 (Callback 1),
        Settle 0 (ResolvedThumbnailURL (Some ''T'')),
        Settle 0 (ResolvedDimensions 4 3),
        Settle 0 (ResolvedSourceURLs URLLivePhoto None),
        Settle 0 (ResolvedLivePhotoImage (Some ''I'') (Some (Blob ''B''))),
        Settle 0 (ResolvedDimensions 40 30)] initial) ! 0 =
       (file11, AwaitLivePhotoVideo
          \<lparr>src = Some ''I'', width = Some 40, height = Some 30, fileID = 11, fileType = FileType_livePhoto,
             imageURL = Some ''I'', originalImageBlob = Some (Blob ''B''), videoURL = None,
             isContentLoading = None, isContentZoomable = None, fetchFailed = None\<rparr>)"
    by code_simp+
  have files: "file_id file9 = 9" "metadata_fileType file9 = FileType_video"
    "file_id file7 = 7" "metadata_fileType file7 = FileType_image"
    "file_id file11 = 11" "metadata_fileType file11 = FileType_livePhoto"
    by (simp_all add: file9_def file7_def file11_def)
  from update_replaces_entry [OF v1]
    update_replaces_entry [OF v2]
    update_replaces_entry [OF v3]
    update_replaces_entry [OF i3]
    update_replaces_entry [OF i4]
    update_replaces_entry [OF l3]
    update_replaces_entry [OF l4]
    update_replaces_entry [OF l5]
    update_replaces_entry [OF l6]
    files
  show ?thesis
    by (simp del: itemDataGet_def)
qed

text \<open>
  Claim C2. A request for a file that has an entry returns that entry and changes
  neither the item data nor the invocations nor the trace: it starts no run and calls no
  collaborator. A request for a file without an entry caches the placeholder and starts
  one invocation within the same step; after it, whatever operations follow (further
  requests for the file and settlements among them), as long as the entry is there
  before and after each of them, that invocation remains the only one started.
\<close>

theorem request_starts_one_run:
  "(itemDataGet w (file_id file) \<noteq> None \<longrightarrow>
      itemDataGet w (file_id file) = Some (fst (itemDataForFile file cb w)) \<and>
      runs (snd (itemDataForFile file cb w)) = runs w \<and>
      itemDataByFileID (state (snd (itemDataForFile file cb w))) = itemDataByFileID (state w) \<and>
      trace (snd (itemDataForFile file cb w)) = trace w) \<and>
   (itemDataGet w (file_id file) = None \<longrightarrow>
      itemDataGet (snd (itemDataForFile file cb w)) (file_id file) =
        Some ((noFields file)\<lparr>isContentLoading := Some True\<rparr>) \<and>
      runs (snd (itemDataForFile file cb w)) = runs w @ [(file, AwaitThumbnailURL)] \<and>
      (\<forall>ops. entryKept (file_id file) ops (snd (itemDataForFile file cb w)) \<longrightarrow>
         runsStarted (file_id file) (execs ops (snd (itemDataForFile file cb w))) =
           runsStarted (file_id file) w + 1))"
proof (intro conjI impI allI)
  fix ops
  assume absent: "itemDataGet w (file_id file) = None"
    and kept: "entryKept (file_id file) ops (snd (itemDataForFile file cb w))"
  have "runsStarted (file_id file) (snd (itemDataForFile file cb w)) = runsStarted (file_id file) w + 1"
    by (simp add: runsStarted_def itemDataForFile_absent(2) [OF absent])
  with entryKept_runsStarted [OF kept]
  show "runsStarted (file_id file) (execs ops (snd (itemDataForFile file cb w))) =
          runsStarted (file_id file) w + 1"
    by simp
qed (auto simp add: itemDataForFile_def Let_def update_conv' noFields_def split: option.split)

theorem request_starts_one_run_witness:
  "runsStarted 7
     (execs [ItemDataForFile file7 (Callback 2),
             Settle 0 (ResolvedThumbnailURL (Some ''T'')),
             ItemDataForFile file7 (Callback 3),
             Settle 0 (ResolvedDimensions 4 3),
             ForgetFailedItemDataForFileID 7,
             ItemDataForFile file7 (Callback 4)]
        (snd (itemDataForFile file7 (Callback 1) initial))) = 1 \<and>
   runs (snd (itemDataForFile file7 (Callback 2) (snd (itemDataForFile file7 (Callback 1) initial)))) =
     [(file7, AwaitThumbnailURL)]"
proof -
  have absent: "itemDataGet initial (file_id file7) = None"
    by simp
  have kept: "entryKept (file_id file7)
                [ItemDataForFile file7 (Callback 2),
                 Settle 0 (ResolvedThumbnailURL (Some ''T'')),
                 ItemDataForFile file7 (Callback 3),
                 Settle 0 (ResolvedDimensions 4 3),
                 ForgetFailedItemDataForFileID 7,
                 ItemDataForFile file7 (Callback 4)]
                (snd (itemDataForFile file7 (Callback 1) initial))"
    by code_simp
  have none: "runsStarted (file_id file7) initial = 0"
    by (simp add: runsStarted_def)
  have present: "itemDataGet (snd (itemDataForFile file7 (Callback 1) initial)) (file_id file7) \<noteq> None"
    by code_simp
  have first: "runs (snd (itemDataForFile file7 (Callback 1) initial)) = [(file7, AwaitThumbnailURL)]"
    by code_simp
  have fid: "file_id file7 = 7"
    by (simp add: file7_def)
  from request_starts_one_run [of initial file7 "Callback 1"] absent kept none
    request_starts_one_run [of "snd (itemDataForFile file7 (Callback 1) initial)" file7 "Callback 2"]
    present first fid
  show ?thesis
    by (simp del: itemDataGet_def)
qed















text \<open>
  Claim C8. File 42, an image, is requested where it has no entry; the thumbnail URL
  \<open>tURL\<close> and the source URL \<open>oURL\<close> with blob \<open>B\<close> both measure 800 by 600. The entry of
  the file after each of the five operations, the events of the run in order (each
  callback invocation right after its cache write), and the invocation having returned.
\<close>

theorem image_example_scenario:
  assumes "itemDataGet w 42 = None"
    and "file = EnteFile 42 FileType_image"
    and "t = length (runs w)"
    and "ops = [ItemDataForFile file cb,
                Settle t (ResolvedThumbnailURL (Some tURL)),
                Settle t (ResolvedDimensions 800 600),
                Settle t (ResolvedSourceURLs (URLString oURL) (Some B)),
                Settle t (ResolvedDimensions 800 600)]"
  shows "map (\<lambda>n. itemDataGet (execs (take n ops) w) 42) [0, 1, 2, 3, 4, 5] =
           [None,
            Some \<lparr>src = None, width = None, height = None, fileID = 42, fileType = FileType_image,
                  imageURL = None, originalImageBlob = None, videoURL = None,
                  isContentLoading = Some True, isContentZoomable = None, fetchFailed = None\<rparr>,
            Some \<lparr>src = None, width = None, height = None, fileID = 42, fileType = FileType_image,
                  imageURL = None, originalImageBlob = None, videoURL = None,
                  isContentLoading = Some True, isContentZoomable = None, fetchFailed = None\<rparr>,
            Some \<lparr>src = Some tURL, width = Some 800, height = Some 600, fileID = 42, fileType = FileType_image,
                  imageURL = None, originalImageBlob = None, videoURL = None,
                  isContentLoading = Some True, isContentZoomable = Some False, fetchFailed = None\<rparr>,
            Some \<lparr>src = Some tURL, width = Some 800, height = Some 600, fileID = 42, fileType = FileType_image,
                  imageURL = None, originalImageBlob = None, videoURL = None,
                  isContentLoading = Some True, isContentZoomable = Some False, fetchFailed = None\<rparr>,
            Some \<lparr>src = Some oURL, width = Some 800, height = Some 600, fileID = 42, fileType = FileType_image,
                  imageURL = Some oURL, originalImageBlob = Some B, videoURL = None,
                  isContentLoading = None, isContentZoomable = None, fetchFailed = None\<rparr>] \<and>
         trace (execs ops w) = trace w @
           [CacheSet 42 \<lparr>src = None, width = None, height = None, fileID = 42, fileType = FileType_image,
                  imageURL = None, originalImageBlob = None, videoURL = None,
                  isContentLoading = Some True, isContentZoomable = None, fetchFailed = None\<rparr>,
            Called (RenderableThumbnailURL file),
            Called (WithDimensions tURL),
            CacheSet 42 \<lparr>src = Some tURL, width = Some 800, height = Some 600, fileID = 42, fileType = FileType_image,
                  imageURL = None, originalImageBlob = None, videoURL = None,
                  isContentLoading = Some True, isContentZoomable = Some False, fetchFailed = None\<rparr>,
            NeedsRefresh cb,
            Called (RenderableSourceURLs file),
            Called (WithDimensions oURL),
            CacheSet 42 \<lparr>src = Some oURL, width = Some 800, height = Some 600, fileID = 42, fileType = FileType_image,
                  imageURL = Some oURL, originalImageBlob = Some B, videoURL = None,
                  isContentLoading = None, isContentZoomable = None, fetchFailed = None\<rparr>,
            NeedsRefresh cb] \<and>
         runs (execs ops w) = runs w @ [(file, Returned)]"
  using assms
  by (simp add: execs_def settle_def itemDataForFile_def Let_def noFields_def ensureString_def update_conv')

theorem image_example_scenario_witness:
  "runs (execs [ItemDataForFile file42 (Callback 1),
                Settle 0 (ResolvedThumbnailURL (Some ''T'')),
                Settle 0 (ResolvedDimensions 800 600),
                Settle 0 (ResolvedSourceURLs (URLString ''O'') (Some (Blob ''B''))),
                Settle 0 (ResolvedDimensions 800 600)] initial) = [(file42, Returned)] \<and>
   notified (trace (execs [ItemDataForFile file42 (Callback 1),
                Settle 0 (ResolvedThumbnailURL (Some ''T'')),
                Settle 0 (ResolvedDimensions 800 600),
                Settle 0 (ResolvedSourceURLs (URLString ''O'') (Some (Blob ''B''))),
                Settle 0 (ResolvedDimensions 800 600)] initial)) = [Callback 1, Callback 1]"
proof -
  have absent: "itemDataGet initial 42 = None"
    by simp
  have t: "0 = length (runs initial)"
    by simp
  from image_example_scenario [OF absent file42_def t refl, of "Callback 1" "''T''" "''O''" "Blob ''B''"]
  show ?thesis
    by simp
qed

text \<open>
  Claim C9. For an \<open>ItemData\<close> of a video, \<^verbatim>\<open>updateFileInfoExifIfNeeded\<close> with no cached
  Exif for the file caches the placeholder (both \<open>tags\<close> and \<open>parsed\<close> absent) and calls the
  registered observer, if any, with it; with cached Exif it does nothing. In both cases it
  calls neither \<^verbatim>\<open>extractRawExif\<close> nor \<^verbatim>\<open>parseExif\<close> and is not suspended, and any
  further call for that file is without effect.
\<close>

theorem video_exif_placeholder:
  assumes "fileType d = FileType_video"
  shows "(fileInfoExifGet w (fileID d) = None \<longrightarrow>
            fileInfoExifGet (updateFileInfoExifIfNeeded d w) (fileID d) = Some \<lparr>tags = None, parsed = None\<rparr> \<and>
            trace (updateFileInfoExifIfNeeded d w) =
              trace w @ (case exifObserverGet w (fileID d) of
                           None \<Rightarrow> []
                         | Some obs \<Rightarrow> [ExifObserved obs \<lparr>tags = None, parsed = None\<rparr>])) \<and>
         (fileInfoExifGet w (fileID d) \<noteq> None \<longrightarrow> updateFileInfoExifIfNeeded d w = w) \<and>
         exifRuns (updateFileInfoExifIfNeeded d w) = exifRuns w \<and>
         extractorCalls (trace (updateFileInfoExifIfNeeded d w)) = extractorCalls (trace w) \<and>
         (\<forall>d'. fileID d' = fileID d \<longrightarrow>
            updateFileInfoExifIfNeeded d' (updateFileInfoExifIfNeeded d w) = updateFileInfoExifIfNeeded d w)"
  using assms
  by (auto simp add: updateFileInfoExifIfNeeded_def createPlaceholderFileInfoExif_def update_conv' split: option.split)

theorem video_exif_placeholder_witness:
  "fileInfoExifGet
     (updateFileInfoExifIfNeeded ((noFields file9)\<lparr>videoURL := Some ''V''\<rparr>)
        (snd (fileInfoExifForFile file9 (Observer 1) initial))) 9 = Some \<lparr>tags = None, parsed = None\<rparr> \<and>
   trace
     (updateFileInfoExifIfNeeded ((noFields file9)\<lparr>videoURL := Some ''V''\<rparr>)
        (snd (fileInfoExifForFile file9 (Observer 1) initial))) =
     [ExifObserved (Observer 1) \<lparr>tags = None, parsed = None\<rparr>] \<and>
   updateFileInfoExifIfNeeded ((noFields file9)\<lparr>videoURL := Some ''V''\<rparr>)
     (updateFileInfoExifIfNeeded ((noFields file9)\<lparr>videoURL := Some ''V''\<rparr>)
        (snd (fileInfoExifForFile file9 (Observer 1) initial))) =
     updateFileInfoExifIfNeeded ((noFields file9)\<lparr>videoURL := Some ''V''\<rparr>)
        (snd (fileInfoExifForFile file9 (Observer 1) initial))"
proof -
  have video: "fileType ((noFields file9)\<lparr>videoURL := Some ''V''\<rparr>) = FileType_video"
    by (simp add: noFields_def file9_def)
  have fid: "fileID ((noFields file9)\<lparr>videoURL := Some ''V''\<rparr>) = 9"
    by (simp add: noFields_def file9_def)
  have absent: "fileInfoExifGet (snd (fileInfoExifForFile file9 (Observer 1) initial)) 9 = None"
    by (simp add: fileInfoExifForFile_def file9_def)
  have obs: "exifObserverGet (snd (fileInfoExifForFile file9 (Observer 1) initial)) 9 = Some (Observer 1)"
    by (simp add: fileInfoExifForFile_def file9_def)
  have tr: "trace (snd (fileInfoExifForFile file9 (Observer 1) initial)) = []"
    by (simp add: fileInfoExifForFile_def file9_def)
  have present: "fileInfoExifGet
     (updateFileInfoExifIfNeeded ((noFields file9)\<lparr>videoURL := Some ''V''\<rparr>)
        (snd (fileInfoExifForFile file9 (Observer 1) initial))) 9 \<noteq> None"
    by code_simp
  from video_exif_placeholder [OF video, of "snd (fileInfoExifForFile file9 (Observer 1) initial)"]
    video_exif_placeholder [OF video,
      of "updateFileInfoExifIfNeeded ((noFields file9)\<lparr>videoURL := Some ''V''\<rparr>)
            (snd (fileInfoExifForFile file9 (Observer 1) initial))"]
    fid absent obs tr present
  show ?thesis
    by (simp del: fileInfoExifGet_def exifObserverGet_def)
qed

text \<open>
  Claim C10 as stated fails: the callback registered before the forgetting is not the
  one invoked by a later run, when the request that starts that run brings another.
  File 7 is requested with callback 1, its thumbnail fails, it is forgotten and requested
  again with callback 2: the update of the second run calls callback 2.
\<close>

theorem later_request_replaces_callback:
  "needsRefreshGet (execs [ItemDataForFile file7 (Callback 1), Settle 0 Rejected,
                           ForgetFailedItemDataForFileID 7] initial) 7 = Some (Callback 1) \<and>
   notified (trace (execs [ItemDataForFile file7 (Callback 1), Settle 0 Rejected,
                           ForgetFailedItemDataForFileID 7] initial)) = [Callback 1] \<and>
   notified (trace (execs [ItemDataForFile file7 (Callback 1), Settle 0 Rejected,
                           ForgetFailedItemDataForFileID 7,
                           ItemDataForFile file7 (Callback 2),
                           Settle 1 (ResolvedThumbnailURL (Some ''T'')),
                           Settle 1 (ResolvedDimensions 4 3)] initial)) = [Callback 1, Callback 2]"
  by code_simp

text \<open>
  Claim C10, as amended. \<^verbatim>\<open>forgetFailedItemDataForFileID\<close> and \<^verbatim>\<open>forgetFailedItems\<close>
  leave the callback registrations, the Exif cache, the Exif observers and the suspended
  invocations as they are, so a registered callback survives the forgetting and a cache
  update that follows it calls that callback. In every world, a step of a run calls no
  callback but the one registered for its file when the step runs, and a request
  registers the callback it is given in place of the one before (for its file only); so
  the callback that survived is called by later updates only until the next request for
  the file, such as the request that starts the next run.
\<close>

theorem forgetFailed_frame:
  "needsRefreshByFileID (state (forgetFailedItemDataForFileID fid w)) = needsRefreshByFileID (state w) \<and>
   fileInfoExifByFileID (state (forgetFailedItemDataForFileID fid w)) = fileInfoExifByFileID (state w) \<and>
   exifObserverByFileID (state (forgetFailedItemDataForFileID fid w)) = exifObserverByFileID (state w) \<and>
   runs (forgetFailedItemDataForFileID fid w) = runs w \<and>
   exifRuns (forgetFailedItemDataForFileID fid w) = exifRuns w \<and>
   needsRefreshByFileID (state (forgetFailedItems w)) = needsRefreshByFileID (state w) \<and>
   fileInfoExifByFileID (state (forgetFailedItems w)) = fileInfoExifByFileID (state w) \<and>
   exifObserverByFileID (state (forgetFailedItems w)) = exifObserverByFileID (state w) \<and>
   runs (forgetFailedItems w) = runs w \<and>
   exifRuns (forgetFailedItems w) = exifRuns w \<and>
   notified (trace (update file d (forgetFailedItemDataForFileID fid w))) =
     notified (trace w) @ (case needsRefreshGet w (file_id file) of None \<Rightarrow> [] | Some cb \<Rightarrow> [cb]) \<and>
   notified (trace (update file d (forgetFailedItems w))) =
     notified (trace w) @ (case needsRefreshGet w (file_id file) of None \<Rightarrow> [] | Some cb \<Rightarrow> [cb]) \<and>
   needsRefreshGet (snd (itemDataForFile file cb' (forgetFailedItemDataForFileID fid w))) (file_id file) = Some cb' \<and>
   (notified (trace (settle t s w)) = notified (trace w) \<or>
    (t < length (runs w) \<and>
     notified (trace (settle t s w)) =
       notified (trace w) @
         (case needsRefreshGet w (file_id (fst (runs w ! t))) of None \<Rightarrow> [] | Some cb \<Rightarrow> [cb]))) \<and>
   needsRefreshGet (snd (itemDataForFile file cb' w)) k =
     (if k = file_id file then Some cb' else needsRefreshGet w k)"
  using settle_notified [of t s w]
  by (simp add: forgetFailedItems_def update_conv' del: itemDataGet_def split: option.split)

end
